theory Spec2Isabelle
  imports Complex_Main "HOL-Library.Word" "HOL-Library.Sublist"
begin

unbundle bit_operations_syntax

section \<open>JavaScript strings\<close>

text \<open>
  A JavaScript string is a sequence of UTF-16 code units; \<open>length\<close>, \<open>substring\<close>,
  \<open>split\<close> and \<open>includes\<close> all count code units.  Literals of the source are ASCII
  and are written through \<open>js\<close>.
\<close>

type_synonym jsstring = "16 word list"

definition js :: "string \<Rightarrow> jsstring" where
  "js s = map of_char s"

text \<open>
  \<open>String.prototype.substring(start, end)\<close> for non-negative integer arguments: both
  indices are clamped to the length and swapped when \<open>start > end\<close>.
\<close>

definition substring :: "'a list \<Rightarrow> nat \<Rightarrow> nat \<Rightarrow> 'a list" where
  "substring s start fin =
     (let len = length s;
          a = min start len;
          b = min fin len;
          lo = min a b;
          hi = max a b
      in take (hi - lo) (drop lo s))"

text \<open>\<open>String.prototype.includes(pattern)\<close>: the pattern occurs at some position.\<close>

fun js_includes :: "'a list \<Rightarrow> 'a list \<Rightarrow> bool" where
  "js_includes [] p = (p = [])"
| "js_includes (c # cs) p = (prefix p (c # cs) \<or> js_includes cs p)"

text \<open>\<open>String.prototype.split(sep)\<close> for a separator of one code unit.\<close>

fun js_split :: "'a \<Rightarrow> 'a list \<Rightarrow> 'a list list" where
  "js_split sep [] = [[]]"
| "js_split sep (c # cs) =
     (if c = sep then [] # js_split sep cs
      else (case js_split sep cs of
              [] \<Rightarrow> [[c]]
            | p # ps \<Rightarrow> (c # p) # ps))"

text \<open>Array indexing \<open>xs[i]\<close>: \<open>undefined\<close> (here \<open>None\<close>) out of range.\<close>

definition at_index :: "'a list \<Rightarrow> nat \<Rightarrow> 'a option" where
  "at_index xs i = (if i < length xs then Some (xs ! i) else None)"

text \<open>\<open>a || b\<close> on an optional string: \<open>undefined\<close> and the empty string are falsy.\<close>

definition or_else :: "jsstring option \<Rightarrow> jsstring \<Rightarrow> jsstring" where
  "or_else a b = (case a of None \<Rightarrow> b | Some s \<Rightarrow> if s = [] then b else s)"

section \<open>Data model (types.ts)\<close>

datatype ComprehensionLevel = HighSchool | Undergraduate | Graduate

fun level_text :: "ComprehensionLevel \<Rightarrow> jsstring" where
  "level_text HighSchool = js ''High School''"
| "level_text Undergraduate = js ''Undergraduate''"
| "level_text Graduate = js ''Graduate''"

text \<open>
  The content of a \<open>pdf\<close> context is whatever \<open>fileToGenerativePart\<close> resolved with,
  which is \<open>undefined\<close> when the data URL held no comma.
\<close>

datatype DocumentContext =
    TextDoc jsstring
  | PdfDoc "jsstring option"
  | UrlDoc jsstring

record GroundingSource =
  title :: "jsstring option"
  uri :: "jsstring option"

section \<open>Requests and responses of the remote capability\<close>

datatype part =
    TextPart jsstring
  | InlineData (mimeType: jsstring) (inline_data: "jsstring option")

datatype role = User | Model

record turn =
  role :: role
  parts :: "part list"

text \<open>
  A request records the arguments of a call to the SDK: either
  \<open>ai.models.generateContent\<close>, or \<open>ai.chats.create\<close> followed by
  \<open>chat.sendMessage\<close>.  The configuration is kept by kind only: none, the JSON schema
  with its thinking budget, the web-search tool, the speech voice.
\<close>

datatype config =
    NoConfig
  | JsonSchemaConfig nat
  | SearchToolConfig
  | SpeechConfig jsstring

datatype request =
    GenerateContent (model: jsstring) (contents_role: "role option")
      (contents_parts: "part list") (config: config)
  | ChatSend (chat_model: jsstring) (chat_instruction: jsstring)
      (chat_history: "turn list") (chat_message: jsstring)

datatype web = Web (web_title: "jsstring option") (web_uri: "jsstring option")

datatype groundingChunk = GroundingChunk (web: "web option")

text \<open>
  What the code reads from a response: \<open>response.text\<close>,
  \<open>response.candidates?.[0]?.groundingMetadata?.groundingChunks\<close> and
  \<open>response.candidates?.[0]?.content?.parts?.[0]?.inlineData?.data\<close>, each possibly
  \<open>undefined\<close>.
\<close>

record response =
  response_text :: "jsstring option"
  groundingChunks :: "groundingChunk list option"
  inlineAudio :: "jsstring option"

section \<open>The retry policy (retryOperation)\<close>

text \<open>
  What a rejected promise carries (\<open>error: any\<close>): \<open>null\<close>/\<open>undefined\<close>, or an object
  whose \<open>status\<close> is a number or absent and whose \<open>message\<close> is a string or absent.
  \<open>PropertyTypeError\<close> is the \<open>TypeError\<close> that reading \<open>error.message\<close> of a nullish
  value raises; its engine-specific message holds neither retry marker.
\<close>

datatype thrown =
    Nullish
  | ErrorObj (status: "int option") (message: "jsstring option")
  | PropertyTypeError

text \<open>
  Line 29: \<open>error?.status === 500 || error?.status === 503 ||
  error.message?.includes('500') || error.message?.includes('Internal error')\<close>.
  The optional chaining guards \<open>status\<close> but not \<open>message\<close>, so the expression itself
  throws for a nullish error.
\<close>

fun isRetryable :: "thrown \<Rightarrow> thrown + bool" where
  "isRetryable Nullish = Inl PropertyTypeError"
| "isRetryable PropertyTypeError = Inr False"
| "isRetryable (ErrorObj st msg) =
     Inr (st = Some 500 \<or> st = Some 503 \<or>
          (case msg of None \<Rightarrow> False | Some m \<Rightarrow> js_includes m (js ''500'')) \<or>
          (case msg of None \<Rightarrow> False | Some m \<Rightarrow> js_includes m (js ''Internal error'')))"

text \<open>
  An asynchronous operation acts on some outside state \<open>'s\<close> and settles with a value
  or a rejection.  The world of \<open>retryOperation\<close> is that state together with the
  delays (in ms) it has passed to \<open>setTimeout\<close>, oldest first.  The numbers of the
  source are doubles; \<open>retries\<close> and \<open>delay\<close> are integers here, on which \<open>- 1\<close> and
  \<open>* 2\<close> are exact in double precision for every value the code reaches from its
  defaults.
\<close>

type_synonym ('s, 'a) operation = "'s \<Rightarrow> (thrown + 'a) \<times> 's"

record 's world =
  ext :: 's
  slept :: "int list"

function retryOperation ::
  "('s, 'a) operation \<Rightarrow> int \<Rightarrow> int \<Rightarrow> 's world \<Rightarrow> (thrown + 'a) \<times> 's world" where
  "retryOperation operation retries delay w =
     (case operation (ext w) of
        (Inr v, s) \<Rightarrow> (Inr v, w\<lparr>ext := s\<rparr>)
      | (Inl error, s) \<Rightarrow>
          if retries \<le> 0 then (Inl error, w\<lparr>ext := s\<rparr>)
          else (case isRetryable error of
                  Inl e \<Rightarrow> (Inl e, w\<lparr>ext := s\<rparr>)
                | Inr True \<Rightarrow>
                    retryOperation operation (retries - 1) (delay * 2)
                      (w\<lparr>ext := s, slept := slept w @ [delay]\<rparr>)
                | Inr False \<Rightarrow> (Inl error, w\<lparr>ext := s\<rparr>)))"
  by pat_completeness auto
termination
  by (relation "measure (\<lambda>(operation, retries, delay, w). nat retries)") auto

declare retryOperation.simps [simp del]

text \<open>
  Instrumentation for stating how often an operation was invoked: \<open>logged operation\<close>
  behaves as \<open>operation\<close> and appends the outcome of each invocation to a log.
\<close>

definition logged :: "('s, 'a) operation \<Rightarrow> ((thrown + 'a) list \<times> 's, 'a) operation" where
  "logged operation = (\<lambda>(log, s). case operation s of (r, s') \<Rightarrow> (r, (log @ [r], s')))"

text \<open>An outcome is transient when it is a failure the classifier marks retryable.\<close>

definition transient :: "thrown + 'a \<Rightarrow> bool" where
  "transient r = (case r of Inl e \<Rightarrow> isRetryable e = Inr True | Inr v \<Rightarrow> False)"

text \<open>The first \<open>n\<close> delays of the exponential backoff.\<close>

definition backoff :: "int \<Rightarrow> nat \<Rightarrow> int list" where
  "backoff delay n = map (\<lambda>k. delay * 2 ^ k) [0..<n]"

section \<open>The remote capability\<close>

text \<open>
  The remote side answers a request, given every request transmitted so far (the
  latest last), with a response or a rejection.  The outside state of the service
  functions is the list of requests transmitted.
\<close>

type_synonym remote = "request list \<Rightarrow> thrown + response"

definition transmit :: "remote \<Rightarrow> request \<Rightarrow> (request list, response) operation" where
  "transmit R req sent = (R (sent @ [req]), sent @ [req])"

section \<open>Reading a file or blob as base64 (fileToGenerativePart)\<close>

text \<open>
  A \<open>File\<close> or \<open>Blob\<close> is given by its MIME type and by what
  \<open>FileReader.readAsDataURL\<close> delivers for it: the data URL, or an error event.
\<close>

record blob =
  blob_type :: jsstring
  readAsDataURL :: "thrown + jsstring"

definition comma :: "16 word" where
  "comma = of_char CHR '',''"

definition fileToGenerativePart :: "blob \<Rightarrow> thrown + jsstring option" where
  "fileToGenerativePart file =
     (case readAsDataURL file of
        Inl e \<Rightarrow> Inl e
      | Inr base64String \<Rightarrow> Inr (at_index (js_split comma base64String) 1))"

section \<open>Analysis (analyzeDocument)\<close>

definition prompt :: "ComprehensionLevel \<Rightarrow> jsstring" where
  "prompt level =
     js ''\<newline>    Analyze the provided research paper content. \<newline>    Target Audience Level: ''
     @ level_text level
     @ js ''.\<newline>    \<newline>    Please provide:\<newline>    1. A comprehensive summary suited for the target audience.\<newline>    2. A glossary of 5-10 key technical terms used in the text with simple definitions.\<newline>    3. 3-5 key insights or takeaways from the paper.\<newline>\<newline>    Output pure JSON.\<newline>  ''"

definition analysis_parts :: "DocumentContext \<Rightarrow> ComprehensionLevel \<Rightarrow> part list" where
  "analysis_parts context level =
     (case context of
        PdfDoc content \<Rightarrow>
          [InlineData (js ''application/pdf'') content, TextPart (prompt level)]
      | UrlDoc content \<Rightarrow>
          [TextPart (js ''Please read and analyze the research paper at this URL: '' @ content),
           TextPart (prompt level)]
      | TextDoc content \<Rightarrow> [TextPart content, TextPart (prompt level)])"

definition analysis_request :: "part list \<Rightarrow> request" where
  "analysis_request ps =
     GenerateContent (js ''gemini-3-pro-preview'') (Some User) ps (JsonSchemaConfig 32768)"

text \<open>
  \<open>generateOp\<close>: one remote call, then \<open>JSON.parse\<close> of a non-empty \<open>response.text\<close>.
  \<open>JSON.parse\<close> is a parameter: it returns the decoded value or throws.
\<close>

definition generateOp ::
  "remote \<Rightarrow> (jsstring \<Rightarrow> thrown + 'r) \<Rightarrow> part list \<Rightarrow> (request list, 'r) operation" where
  "generateOp R parse ps sent =
     (case transmit R (analysis_request ps) sent of
        (Inl e, sent') \<Rightarrow> (Inl e, sent')
      | (Inr response, sent') \<Rightarrow>
          (case response_text response of
             None \<Rightarrow> (Inl (ErrorObj None (Some (js ''No response generated''))), sent')
           | Some t \<Rightarrow>
               if t \<noteq> [] then (parse t, sent')
               else (Inl (ErrorObj None (Some (js ''No response generated''))), sent')))"

text \<open>
  \<open>retryOperation(generateOp)\<close> takes the defaults \<open>retries = 3\<close> and \<open>delay = 1000\<close>.
  The \<open>catch\<close> of \<open>analyzeDocument\<close> logs and rethrows the same error.
\<close>

definition analyzeDocument ::
  "remote \<Rightarrow> (jsstring \<Rightarrow> thrown + 'r) \<Rightarrow> DocumentContext \<Rightarrow> ComprehensionLevel \<Rightarrow>
   request list world \<Rightarrow> (thrown + 'r) \<times> request list world" where
  "analyzeDocument R parse context level w =
     retryOperation (generateOp R parse (analysis_parts context level)) 3 1000 w"

section \<open>Chat (sendChatMessage)\<close>

definition systemInstruction :: jsstring where
  "systemInstruction =
     js ''You are a helpful research assistant. Answer questions strictly based on the provided research paper context. If the answer is not in the context, state that.\<newline>\<newline>  IMPORTANT: Respond in clean plain text only.\<newline>  - Do not use any Markdown formatting such as bold, italics, headings, bullet points, or symbols.\<newline>  - Do not wrap text with asterisks (*), hashes (#), dashes (-), or any special formatting markers.\<newline>  - Write every answer in simple, natural, paragraph-style plain text.\<newline>  - Keep explanations clear, direct, and conversational.\<newline>  - Do not add decorative formatting. No bold, no italics, no lists, no emojis.\<newline>  - If you need to emphasize something, use natural language instead of formatting.''"

definition contextMessage :: "DocumentContext \<Rightarrow> turn" where
  "contextMessage context =
     (case context of
        PdfDoc content \<Rightarrow>
          \<lparr>role = User,
           parts = [TextPart (js ''Here is the research paper to reference:''),
                    InlineData (js ''application/pdf'') content]\<rparr>
      | UrlDoc content \<Rightarrow>
          \<lparr>role = User,
           parts = [TextPart (js ''Here is the URL of the research paper to reference: ''
                              @ content)]\<rparr>
      | TextDoc content \<Rightarrow>
          \<lparr>role = User,
           parts = [TextPart (js ''Here is the text of the research paper to reference:\<newline>\<newline>''
                              @ substring content 0 30000)]\<rparr>)"

definition acknowledgment :: turn where
  "acknowledgment =
     \<lparr>role = Model, parts = [TextPart (js ''I have read the paper. How can I help you?'')]\<rparr>"

definition fullHistory :: "turn list \<Rightarrow> DocumentContext \<Rightarrow> turn list" where
  "fullHistory history context = [contextMessage context, acknowledgment] @ history"

definition chat_request :: "turn list \<Rightarrow> jsstring \<Rightarrow> DocumentContext \<Rightarrow> request" where
  "chat_request history newMessage context =
     ChatSend (js ''gemini-3-pro-preview'') systemInstruction
       (fullHistory history context) newMessage"

text \<open>Every failure inside the \<open>try\<close> is answered with the apology string.\<close>

definition sendChatMessage ::
  "remote \<Rightarrow> turn list \<Rightarrow> jsstring \<Rightarrow> DocumentContext \<Rightarrow> (request list, jsstring) operation" where
  "sendChatMessage R history newMessage context sent =
     (case transmit R (chat_request history newMessage context) sent of
        (Inl error, sent') \<Rightarrow>
          (Inr (js ''Sorry, I encountered an error processing your request.''), sent')
      | (Inr result, sent') \<Rightarrow>
          (Inr (or_else (response_text result) (js ''I couldn't generate a response.'')), sent'))"

text \<open>
  The turns a request hands to the SDK, in order.  For a chat request these are the
  history given to \<open>ai.chats.create\<close> followed by the message given to
  \<open>chat.sendMessage\<close>, as a user turn.  What the SDK (a dependency, not part of this
  repository) then puts on the wire is its curated copy of that history, which can
  leave out turns, for one a model turn without parts and the user turn before it;
  nothing here says what survives that step.
\<close>

fun handed_turns :: "request \<Rightarrow> turn list" where
  "handed_turns (ChatSend m i h msg) = h @ [\<lparr>role = User, parts = [TextPart msg]\<rparr>]"
| "handed_turns (GenerateContent m r ps c) =
     [\<lparr>role = (case r of None \<Rightarrow> User | Some x \<Rightarrow> x), parts = ps\<rparr>]"

section \<open>Search grounding (searchRelatedTopics)\<close>

record search_result =
  result_text :: jsstring
  sources :: "GroundingSource list"

definition search_request :: "jsstring \<Rightarrow> request" where
  "search_request query =
     GenerateContent (js ''gemini-2.5-flash'') None
       [TextPart (js ''Find recent information related to: '' @ query)] SearchToolConfig"

text \<open>The body of the \<open>forEach\<close> callback, acting on the \<open>sources\<close> array.\<close>

definition push_source :: "GroundingSource list \<Rightarrow> groundingChunk \<Rightarrow> GroundingSource list" where
  "push_source srcs chunk =
     (case web chunk of
        None \<Rightarrow> srcs
      | Some wb \<Rightarrow> srcs @ [\<lparr>title = web_title wb, uri = web_uri wb\<rparr>])"

definition extract_sources :: "response \<Rightarrow> GroundingSource list" where
  "extract_sources response =
     (case groundingChunks response of
        None \<Rightarrow> []
      | Some chunks \<Rightarrow> foldl push_source [] chunks)"

definition unavailable :: search_result where
  "unavailable = \<lparr>result_text = js ''Search currently unavailable.'', sources = []\<rparr>"

definition searchRelatedTopics :: "remote \<Rightarrow> jsstring \<Rightarrow> (request list, search_result) operation" where
  "searchRelatedTopics R query sent =
     (case transmit R (search_request query) sent of
        (Inl error, sent') \<Rightarrow> (Inr unavailable, sent')
      | (Inr response, sent') \<Rightarrow>
          (Inr \<lparr>result_text = or_else (response_text response) (js ''No results found.''),
                sources = extract_sources response\<rparr>, sent'))"

section \<open>Speech synthesis (generateSpeech)\<close>

definition speech_request :: "jsstring \<Rightarrow> request" where
  "speech_request text =
     GenerateContent (js ''gemini-2.5-flash-preview-tts'') None
       [TextPart (substring text 0 400)] (SpeechConfig (js ''Fenrir''))"

text \<open>
  \<open>atob\<close> is a parameter: it returns the binary string or throws.  Storing a code unit
  in the \<open>Uint8Array\<close> keeps its low eight bits.
\<close>

definition generateSpeech ::
  "remote \<Rightarrow> (jsstring \<Rightarrow> thrown + jsstring) \<Rightarrow> jsstring \<Rightarrow> (request list, 8 word list) operation" where
  "generateSpeech R atob text sent =
     (case transmit R (speech_request text) sent of
        (Inl error, sent') \<Rightarrow> (Inl error, sent')
      | (Inr response, sent') \<Rightarrow>
          (case inlineAudio response of
             None \<Rightarrow> (Inl (ErrorObj None (Some (js ''No audio data returned''))), sent')
           | Some base64Audio \<Rightarrow>
               if base64Audio = []
               then (Inl (ErrorObj None (Some (js ''No audio data returned''))), sent')
               else (case atob base64Audio of
                       Inl error \<Rightarrow> (Inl error, sent')
                     | Inr binaryString \<Rightarrow> (Inr (map ucast binaryString), sent'))))"

section \<open>Transcription (transcribeUserAudio)\<close>



section \<open>Building the document context (handleAnalyze)\<close>

datatype DocumentInputType = Pdf | Text | Url

datatype input_content = FileContent blob | StringContent jsstring

text \<open>Lines 15 to 26 of \<open>handleAnalyze\<close>: the context, or the error thrown.\<close>

definition build_context :: "DocumentInputType \<Rightarrow> input_content \<Rightarrow> thrown + DocumentContext" where
  "build_context type content =
     (case (type, content) of
        (Pdf, FileContent file) \<Rightarrow>
          (case fileToGenerativePart file of
             Inl e \<Rightarrow> Inl e
           | Inr base64Data \<Rightarrow> Inr (PdfDoc base64Data))
      | (Url, StringContent c) \<Rightarrow> Inr (UrlDoc c)
      | (Text, StringContent c) \<Rightarrow> Inr (TextDoc c)
      | _ \<Rightarrow> Inl (ErrorObj None (Some (js ''Invalid input''))))"

record 'r app =
  isProcessing :: bool
  analysisResult :: "'r option"
  documentContext :: "DocumentContext option"
  alerts :: "jsstring list"

definition handleAnalyze ::
  "remote \<Rightarrow> (jsstring \<Rightarrow> thrown + 'r) \<Rightarrow> DocumentInputType \<Rightarrow> input_content \<Rightarrow>
   ComprehensionLevel \<Rightarrow> 'r app \<times> request list world \<Rightarrow> 'r app \<times> request list world" where
  "handleAnalyze R parse type content level = (\<lambda>(a, w).
     (let failed = js ''Analysis failed. Please try again.''
      in case build_context type content of
           Inl error \<Rightarrow> (a\<lparr>alerts := alerts a @ [failed], isProcessing := False\<rparr>, w)
         | Inr context \<Rightarrow>
             (case analyzeDocument R parse context level w of
                (Inl error, w') \<Rightarrow>
                  (a\<lparr>documentContext := Some context,
                     alerts := alerts a @ [failed], isProcessing := False\<rparr>, w')
              | (Inr result, w') \<Rightarrow>
                  (a\<lparr>documentContext := Some context,
                     analysisResult := Some result, isProcessing := False\<rparr>, w'))))"

text \<open>The code units of the base64 alphabet, padding included.\<close>

definition base64_unit :: "16 word \<Rightarrow> bool" where
  "base64_unit c =
     (c \<in> set (js ''ABCDEFGHIJKLMNOPQRSTUVWXYZabcdefghijklmnopqrstuvwxyz0123456789+/=''))"

section \<open>Decoding raw PCM (createAudioBufferFromPCM)\<close>

datatype audio_error = RangeError | NotSupportedError

text \<open>
  \<open>new Int16Array(rawBuffer)\<close> views the bytes as 16-bit signed samples in the byte
  order of the platform, which is little-endian on every platform a browser runs on;
  it throws a \<open>RangeError\<close> when the byte length is odd.
\<close>

definition int16_le :: "8 word \<Rightarrow> 8 word \<Rightarrow> 16 word" where
  "int16_le lo hi = push_bit 8 (ucast hi) OR ucast lo"

fun Int16Array :: "8 word list \<Rightarrow> audio_error + 16 word list" where
  "Int16Array [] = Inr []"
| "Int16Array [b] = Inl RangeError"
| "Int16Array (lo # hi # bs) =
     (case Int16Array bs of
        Inl e \<Rightarrow> Inl e
      | Inr xs \<Rightarrow> Inr (int16_le lo hi # xs))"

text \<open>
  \<open>context.createBuffer(1, frameCount, sampleRate)\<close> gives one channel of zeros; it
  throws a \<open>NotSupportedError\<close> for a frame count of zero or a sample rate the context
  does not support.
\<close>

record AudioContext =
  supportsRate :: "nat \<Rightarrow> bool"

record AudioBuffer =
  buffer_sampleRate :: nat
  channelData :: "real list"

definition createBuffer :: "AudioContext \<Rightarrow> nat \<Rightarrow> nat \<Rightarrow> audio_error + AudioBuffer" where
  "createBuffer context frameCount sampleRate =
     (if frameCount = 0 \<or> \<not> supportsRate context sampleRate then Inl NotSupportedError
      else Inr \<lparr>buffer_sampleRate = sampleRate, channelData = replicate frameCount 0\<rparr>)"

text \<open>
  The \<open>for\<close> loop of lines 52 to 55.  A 16-bit integer divided by 32768 is exact in
  double precision and again when stored in the \<open>Float32Array\<close>, so the stored floats
  are these quotients.
\<close>

function pcm_loop :: "16 word list \<Rightarrow> nat \<Rightarrow> nat \<Rightarrow> real list \<Rightarrow> real list" where
  "pcm_loop data frameCount i channel =
     (if i < frameCount
      then pcm_loop data frameCount (Suc i) (channel[i := real_of_int (sint (data ! i)) / 32768])
      else channel)"
  by pat_completeness auto
termination
  by (relation "measure (\<lambda>(data, frameCount, i, channel). frameCount - i)") auto

declare pcm_loop.simps [simp del]

definition createAudioBufferFromPCM ::
  "8 word list \<Rightarrow> AudioContext \<Rightarrow> nat \<Rightarrow> audio_error + AudioBuffer" where
  "createAudioBufferFromPCM rawBuffer context sampleRate =
     (case Int16Array rawBuffer of
        Inl e \<Rightarrow> Inl e
      | Inr data \<Rightarrow>
          (let frameCount = length data
           in case createBuffer context frameCount sampleRate of
                Inl e \<Rightarrow> Inl e
              | Inr audioBuffer \<Rightarrow>
                  Inr (audioBuffer\<lparr>channelData :=
                         pcm_loop data frameCount 0 (channelData audioBuffer)\<rparr>)))"

section \<open>Example inputs\<close>

text \<open>An operation that always fails with HTTP 503, counting its invocations.\<close>

definition service_unavailable :: thrown where
  "service_unavailable = ErrorObj (Some 503) None"

definition always_unavailable :: "(nat, unit) operation" where
  "always_unavailable n = (Inl service_unavailable, Suc n)"

text \<open>An operation that always fails with HTTP 404.\<close>

definition not_found :: thrown where
  "not_found = ErrorObj (Some 404) (Some (js ''Requested entity was not found.''))"

definition always_not_found :: "(nat, unit) operation" where
  "always_not_found n = (Inl not_found, Suc n)"

text \<open>Remote sides that give the same answer to every request.\<close>

definition answers :: "response \<Rightarrow> remote" where
  "answers r sent = Inr r"

definition rejects :: "thrown \<Rightarrow> remote" where
  "rejects e sent = Inl e"

text \<open>
  A search response with three grounding chunks: a web source with title and URI, a
  chunk without web attribution, and a web source with a URI but no title.
\<close>

definition grounded_response :: response where
  "grounded_response =
     \<lparr>response_text = Some (js ''Recent work''),
      groundingChunks = Some
        [GroundingChunk (Some (Web (Some (js ''Paper A'')) (Some (js ''https://a.example'')))),
         GroundingChunk None,
         GroundingChunk (Some (Web None (Some (js ''https://b.example''))))],
      inlineAudio = None\<rparr>"

text \<open>The source entry built from a web attribution.\<close>

definition source_of :: "web \<Rightarrow> GroundingSource" where
  "source_of wb = \<lparr>title = web_title wb, uri = web_uri wb\<rparr>"

text \<open>A response that carries both a text and an audio payload.\<close>

definition spoken_response :: response where
  "spoken_response =
     \<lparr>response_text = Some (js ''{}''), groundingChunks = None,
      inlineAudio = Some (js ''AAAA'')\<rparr>"


text \<open>A stand-in for \<open>JSON.parse\<close> that accepts every text.\<close>

definition parse_any :: "jsstring \<Rightarrow> thrown + jsstring" where
  "parse_any t = Inr t"


text \<open>The text context of the end-to-end scenarios.\<close>

definition photosynthesis :: DocumentContext where
  "photosynthesis = TextDoc (js ''Photosynthesis converts light to chemical energy.'')"

text \<open>A PDF file whose data URL holds the base64 payload \<open>JVBERi0=\<close>.\<close>

definition pdf_file :: blob where
  "pdf_file = \<lparr>blob_type = js ''application/pdf'',
               readAsDataURL = Inr (js ''data:application/pdf;base64,JVBERi0='')\<rparr>"

text \<open>The state of the application before any analysis.\<close>

definition idle_app :: "jsstring app" where
  "idle_app = \<lparr>isProcessing = False, analysisResult = None, documentContext = None, alerts = []\<rparr>"

text \<open>An audio context that supports sample rates from 8000 to 96000 Hz.\<close>

definition browser_context :: AudioContext where
  "browser_context = \<lparr>supportsRate = (\<lambda>rate. 8000 \<le> rate \<and> rate \<le> 96000)\<rparr>"

section \<open>Basic facts\<close>

lemma substring_from_zero: "substring s 0 n = take n s"
  by (simp add: substring_def Let_def min_def)

lemma generateSpeech_sent: "snd (generateSpeech R atob text sent) = sent @ [speech_request text]"
  by (simp add: generateSpeech_def transmit_def split: sum.splits option.splits)

lemma contextMessage_text:
  "contextMessage (TextDoc content) =
     \<lparr>role = User,
      parts = [TextPart (js ''Here is the text of the research paper to reference:\<newline>\<newline>''
                         @ take 30000 content)]\<rparr>"
  by (simp add: contextMessage_def substring_from_zero)

lemma sendChatMessage_sent:
  "snd (sendChatMessage R history newMessage context sent) =
     sent @ [chat_request history newMessage context]"
  by (simp add: sendChatMessage_def transmit_def split: sum.splits)

section \<open>Speech synthesis input is truncated\<close>

text \<open>
  C8.  For every input text, \<open>generateSpeech\<close> transmits exactly one request, whose only
  part is the first 400 code units of the text: never more than 400.
\<close>

theorem generateSpeech_transmits_first_400:
  "snd (generateSpeech R atob text sent) = sent @ [speech_request text] \<and>
   contents_parts (speech_request text) = [TextPart (take 400 text)] \<and>
   length (take 400 text) \<le> 400"
  by (simp add: generateSpeech_sent speech_request_def substring_from_zero)

section \<open>The chat seed of a text document\<close>

text \<open>
  C10.  For a text context the first turn that \<open>sendChatMessage\<close> hands to the chat
  session carries the fixed introduction followed by the first 30000 code units of the content only,
  whereas the analysis request carries the whole content; a content of at most 30000
  code units is carried unmodified.
\<close>

theorem chat_seed_text_truncated_to_30000:
  "snd (sendChatMessage R history newMessage (TextDoc content) sent) =
     sent @ [chat_request history newMessage (TextDoc content)] \<and>
   hd (handed_turns (chat_request history newMessage (TextDoc content))) =
     \<lparr>role = User,
      parts = [TextPart (js ''Here is the text of the research paper to reference:\<newline>\<newline>''
                         @ take 30000 content)]\<rparr> \<and>
   hd (analysis_parts (TextDoc content) level) = TextPart content \<and>
   (length content \<le> 30000 \<longrightarrow>
      hd (handed_turns (chat_request history newMessage (TextDoc content))) =
        \<lparr>role = User,
         parts = [TextPart (js ''Here is the text of the research paper to reference:\<newline>\<newline>''
                            @ content)]\<rparr>)"
  by (simp add: sendChatMessage_sent chat_request_def fullHistory_def contextMessage_text
      analysis_parts_def)

theorem chat_seed_text_truncated_to_30000_witness:
  "length (js ''Photosynthesis converts light to chemical energy.'') \<le> 30000 \<and>
   hd (handed_turns (chat_request [] (js ''What is the main finding?'')
         (TextDoc (js ''Photosynthesis converts light to chemical energy.'')))) =
     \<lparr>role = User,
      parts = [TextPart (js ''Here is the text of the research paper to reference:\<newline>\<newline>''
                @ js ''Photosynthesis converts light to chemical energy.'')]\<rparr>"
  using chat_seed_text_truncated_to_30000
    [of "\<lambda>_. Inl Nullish" "[]" "js ''What is the main finding?''"
        "js ''Photosynthesis converts light to chemical energy.''" "[]" Undergraduate]
  by (simp add: js_def)

section \<open>The retry policy\<close>

lemma backoff_Suc: "delay # backoff (delay * 2) n = backoff delay (Suc n)"
  unfolding backoff_def
  by (induction n) (auto simp: upt_rec[of 0] map_Suc_upt[symmetric] simp del: upt_Suc)

lemma backoff_nth: "k < n \<Longrightarrow> backoff delay n ! k = delay * 2 ^ k"
  by (simp add: backoff_def)

lemma length_backoff: "length (backoff delay n) = n"
  by (simp add: backoff_def)

lemma isRetryable_Inl: "isRetryable err = Inl te \<Longrightarrow> err = Nullish \<and> te = PropertyTypeError"
  by (cases err) auto

text \<open>
  A rejection with \<open>null\<close> or \<open>undefined\<close> is not classified: with budget left, reading
  \<open>error.message\<close> throws, and that \<open>TypeError\<close> is what the caller receives.
\<close>

lemma retryOperation_nullish:
  "operation (ext w) = (Inl Nullish, s) \<Longrightarrow> 0 < retries \<Longrightarrow>
   retryOperation operation retries delay w = (Inl PropertyTypeError, w\<lparr>ext := s\<rparr>)"
  by (subst retryOperation.simps) simp

lemma retry_logged:
  "retryOperation (logged op) retries delay w = (res, w') \<Longrightarrow>
   \<exists>new. fst (ext w') = fst (ext w) @ new \<and> new \<noteq> [] \<and>
         int (length new) \<le> 1 + max 0 retries \<and>
         slept w' = slept w @ backoff delay (length new - 1) \<and>
         (res = last new \<or> (last new = Inl Nullish \<and> res = Inl PropertyTypeError)) \<and>
         (list_all transient new \<longrightarrow> int (length new) = 1 + max 0 retries \<and> res = last new)"
proof (induction "logged op" retries delay w arbitrary: res w' rule: retryOperation.induct)
  case (1 retries delay w)
  obtain lg s where e: "ext w = (lg, s)" by (cases "ext w")
  obtain r s' where o: "op s = (r, s')" by (cases "op s")
  have lo: "logged op (ext w) = (r, (lg @ [r], s'))" by (simp add: logged_def e o)
  show ?case
  proof (cases r)
    case (Inr v)
    with 1(2) lo e show ?thesis
      by (subst (asm) retryOperation.simps) (auto simp: backoff_def transient_def)
  next
    case (Inl err)
    show ?thesis
    proof (cases "retries \<le> 0")
      case True
      with 1(2) lo e Inl show ?thesis
        by (subst (asm) retryOperation.simps) (auto simp: backoff_def transient_def)
    next
      case False
      show ?thesis
      proof (cases "isRetryable err")
        case (Inl te)
        then have "err = Nullish" "te = PropertyTypeError" by (auto dest: isRetryable_Inl)
        with 1(2) lo e \<open>r = Inl err\<close> False Inl show ?thesis
          by (subst (asm) retryOperation.simps) (auto simp: backoff_def transient_def)
      next
        case (Inr b)
        show ?thesis
        proof (cases b)
          case False
          with 1(2) lo e \<open>r = Inl err\<close> \<open>\<not> retries \<le> 0\<close> Inr show ?thesis
            by (subst (asm) retryOperation.simps) (auto simp: backoff_def transient_def)
        next
          case True
          let ?w1 = "w\<lparr>ext := (lg @ [r], s'), slept := slept w @ [delay]\<rparr>"
          have rec: "retryOperation (logged op) (retries - 1) (delay * 2) ?w1 = (res, w')"
            using 1(2) lo e \<open>r = Inl err\<close> \<open>\<not> retries \<le> 0\<close> Inr True
            by (subst (asm) retryOperation.simps) auto
          have bT: "b = True" using True by simp
          from 1(1)[OF lo[symmetric] \<open>r = Inl err\<close> \<open>\<not> retries \<le> 0\<close> Inr bT rec]
          obtain new where n: "fst (ext w') = fst (ext ?w1) @ new" "new \<noteq> []"
            "int (length new) \<le> 1 + max 0 (retries - 1)"
            "slept w' = slept ?w1 @ backoff (delay * 2) (length new - 1)"
            "res = last new \<or> (last new = Inl Nullish \<and> res = Inl PropertyTypeError)"
            "list_all transient new \<longrightarrow> int (length new) = 1 + max 0 (retries - 1) \<and> res = last new"
            by blast
          have bk: "delay # backoff (delay * 2) (length new - Suc 0) = backoff delay (length new)"
            using n(2) backoff_Suc[of delay "length new - 1"] by (cases new) auto
          show ?thesis
            apply (rule exI[of _ "r # new"])
            using n \<open>\<not> retries \<le> 0\<close> e
            by (auto simp: bk)
        qed
      qed
    qed
  qed
qed

lemma always_unavailable_run:
  "retryOperation (logged always_unavailable) 3 1000 \<lparr>ext = ([], 0), slept = []\<rparr> =
     (Inl service_unavailable,
      \<lparr>ext = ([Inl service_unavailable, Inl service_unavailable,
               Inl service_unavailable, Inl service_unavailable], 4),
       slept = [1000, 2000, 4000]\<rparr>)"
  by (simp add: retryOperation.simps logged_def always_unavailable_def service_unavailable_def)


text \<open>
  C1.  With a retry budget \<open>retries \<ge> 0\<close>, \<open>retryOperation\<close> invokes the operation at
  least once and at most \<open>1 + retries\<close> times; it waits once between two consecutive
  attempts, and the wait before attempt \<open>k + 1\<close> is \<open>delay * 2 ^ (k - 1)\<close>; when every
  attempt failed with a retryable error, there were exactly \<open>1 + retries\<close> attempts and
  the result is the error of the last one.
\<close>

theorem retryOperation_attempts_and_backoff:
  assumes budget: "0 \<le> retries"
    and run: "retryOperation (logged operation) retries delay \<lparr>ext = ([], s), slept = []\<rparr> = (res, w')"
  shows "1 \<le> length (fst (ext w')) \<and>
         int (length (fst (ext w'))) \<le> 1 + retries \<and>
         length (slept w') = length (fst (ext w')) - 1 \<and>
         (\<forall>k. 1 \<le> k \<and> k < length (fst (ext w')) \<longrightarrow> slept w' ! (k - 1) = delay * 2 ^ (k - 1)) \<and>
         (list_all transient (fst (ext w')) \<longrightarrow>
            int (length (fst (ext w'))) = 1 + retries \<and> res = last (fst (ext w')))"
proof -
  from retry_logged[OF run] obtain new where n:
    "fst (ext w') = new" "new \<noteq> []" "int (length new) \<le> 1 + max 0 retries"
    "slept w' = backoff delay (length new - 1)"
    "list_all transient new \<longrightarrow> int (length new) = 1 + max 0 retries \<and> res = last new"
    by auto
  have "1 \<le> length new" using n(2) by (cases new) auto
  moreover have "\<forall>k. 1 \<le> k \<and> k < length new \<longrightarrow> slept w' ! (k - 1) = delay * 2 ^ (k - 1)"
    by (auto simp: n(4) backoff_nth)
  ultimately show ?thesis
    using n budget by (simp add: length_backoff)
qed

theorem retryOperation_attempts_and_backoff_witness:
  "(0::int) \<le> 3 \<and>
   fst (retryOperation (logged always_unavailable) 3 1000 \<lparr>ext = ([], 0), slept = []\<rparr>) =
     Inl service_unavailable \<and>
   int (length (fst (ext (snd (retryOperation (logged always_unavailable) 3 1000
     \<lparr>ext = ([], 0), slept = []\<rparr>))))) = 1 + 3 \<and>
   slept (snd (retryOperation (logged always_unavailable) 3 1000 \<lparr>ext = ([], 0), slept = []\<rparr>)) =
     [1000, 1000 * 2, 1000 * 2 ^ 2]"
proof -
  have budget: "(0::int) \<le> 3" by simp
  have tr: "transient (Inl service_unavailable :: thrown + unit)"
    by (simp add: transient_def service_unavailable_def)
  from retryOperation_attempts_and_backoff[OF budget always_unavailable_run] tr
  show ?thesis unfolding always_unavailable_run by simp
qed

text \<open>
  C2.  When the first invocation fails with an error object whose status is neither 500
  nor 503 and whose message, if any, contains neither \<open>500\<close> nor \<open>Internal error\<close>,
  \<open>retryOperation\<close> invokes the operation exactly once, waits for nothing and rejects
  with that same error, whatever the budget.
\<close>

theorem retryOperation_terminal_once:
  assumes fails: "operation s = (Inl (ErrorObj st msg), s')"
    and no_status: "st \<noteq> Some 500 \<and> st \<noteq> Some 503"
    and no_marker: "msg = None \<or>
      (\<exists>m. msg = Some m \<and> \<not> js_includes m (js ''500'') \<and> \<not> js_includes m (js ''Internal error''))"
  shows "retryOperation (logged operation) retries delay \<lparr>ext = ([], s), slept = []\<rparr> =
           (Inl (ErrorObj st msg), \<lparr>ext = ([Inl (ErrorObj st msg)], s'), slept = []\<rparr>)"
proof -
  have "isRetryable (ErrorObj st msg) = Inr False"
    using no_status no_marker by auto
  then show ?thesis
    using fails by (subst retryOperation.simps) (simp add: logged_def)
qed

theorem retryOperation_terminal_once_witness:
  "always_not_found 0 = (Inl not_found, Suc 0) \<and>
   retryOperation (logged always_not_found) 3 1000 \<lparr>ext = ([], 0), slept = []\<rparr> =
     (Inl not_found, \<lparr>ext = ([Inl not_found], Suc 0), slept = []\<rparr>)"
proof -
  have fails: "always_not_found 0 =
      (Inl (ErrorObj (Some 404) (Some (js ''Requested entity was not found.''))), Suc 0)"
    by (simp add: always_not_found_def not_found_def)
  have no_status: "Some (404::int) \<noteq> Some 500 \<and> Some (404::int) \<noteq> Some 503" by simp
  have no_marker: "Some (js ''Requested entity was not found.'') = None \<or>
      (\<exists>m. Some (js ''Requested entity was not found.'') = Some m \<and>
           \<not> js_includes m (js ''500'') \<and> \<not> js_includes m (js ''Internal error''))"
    by (simp add: js_def)
  from retryOperation_terminal_once[where operation = always_not_found and s = 0,
      OF fails no_status no_marker, of 3 1000]
  show ?thesis by (simp add: always_not_found_def not_found_def)
qed

section \<open>Search grounding\<close>

lemma foldl_push_source:
  "foldl push_source acc chunks = acc @ map source_of (List.map_filter web chunks)"
proof (induction chunks arbitrary: acc)
  case Nil
  show ?case by (simp add: List.map_filter_simps)
next
  case (Cons c cs)
  have "foldl push_source acc (c # cs) =
          push_source acc c @ map source_of (List.map_filter web cs)"
    by (simp add: Cons)
  also have "\<dots> = acc @ map source_of (List.map_filter web (c # cs))"
    by (cases "web c") (simp_all add: push_source_def source_of_def List.map_filter_simps)
  finally show ?case .
qed


text \<open>
  C5 (as amended).  On a successful response the sources are, in the order of the
  backend, one entry for every grounding chunk that has a web attribution, with the
  title and the URI of that attribution copied as they are, present or not; only the
  chunks without a web attribution are dropped.
\<close>

theorem search_sources_are_web_chunks:
  assumes "R (sent @ [search_request query]) = Inr response"
  shows "fst (searchRelatedTopics R query sent) =
           Inr \<lparr>result_text = or_else (response_text response) (js ''No results found.''),
                sources = map (\<lambda>wb. \<lparr>title = web_title wb, uri = web_uri wb\<rparr>)
                            (List.map_filter web
                               (case groundingChunks response of None \<Rightarrow> [] | Some chunks \<Rightarrow> chunks))\<rparr>"
  using assms
  by (simp add: searchRelatedTopics_def transmit_def extract_sources_def foldl_push_source
      source_of_def List.map_filter_simps split: option.splits)

theorem search_sources_are_web_chunks_witness:
  "answers grounded_response ([] @ [search_request (js ''enzymes'')]) = Inr grounded_response \<and>
   fst (searchRelatedTopics (answers grounded_response) (js ''enzymes'') []) =
     Inr \<lparr>result_text = js ''Recent work'',
          sources = [\<lparr>title = Some (js ''Paper A''), uri = Some (js ''https://a.example'')\<rparr>,
                     \<lparr>title = None, uri = Some (js ''https://b.example'')\<rparr>]\<rparr>"
proof -
  have h: "answers grounded_response ([] @ [search_request (js ''enzymes'')]) = Inr grounded_response"
    by (simp add: answers_def)
  have "fst (searchRelatedTopics (answers grounded_response) (js ''enzymes'') []) =
     Inr \<lparr>result_text = js ''Recent work'',
          sources = [\<lparr>title = Some (js ''Paper A''), uri = Some (js ''https://a.example'')\<rparr>,
                     \<lparr>title = None, uri = Some (js ''https://b.example'')\<rparr>]\<rparr>"
    using search_sources_are_web_chunks
      [where R = "answers grounded_response" and sent = "[]", OF h]
    by (simp add: grounded_response_def or_else_def List.map_filter_simps js_def)
  with h show ?thesis by (rule conjI)
qed

text \<open>
  C5 as stated fails: a web chunk that has a URI and no title is not dropped; it is
  returned with an absent title.
\<close>

theorem search_keeps_untitled_source:
  "sources (projr (fst (searchRelatedTopics (answers grounded_response) (js ''enzymes'') []))) =
     [\<lparr>title = Some (js ''Paper A''), uri = Some (js ''https://a.example'')\<rparr>,
      \<lparr>title = None, uri = Some (js ''https://b.example'')\<rparr>]"
  by (simp add: searchRelatedTopics_def transmit_def answers_def grounded_response_def
      extract_sources_def push_source_def)

text \<open>
  C6.  \<open>searchRelatedTopics\<close> never rejects, and when the remote call fails, for
  whatever reason, it returns the text \<open>Search currently unavailable.\<close> with no sources.
\<close>

theorem search_degrades_on_failure:
  "(\<exists>r. fst (searchRelatedTopics R query sent) = Inr r) \<and>
   (R (sent @ [search_request query]) = Inl error \<longrightarrow>
      fst (searchRelatedTopics R query sent) =
        Inr \<lparr>result_text = js ''Search currently unavailable.'', sources = []\<rparr>)"
  by (simp add: searchRelatedTopics_def transmit_def unavailable_def split: sum.splits)

theorem search_degrades_on_failure_witness:
  "rejects (ErrorObj None (Some (js ''Failed to fetch''))) ([] @ [search_request (js ''enzymes'')]) =
     Inl (ErrorObj None (Some (js ''Failed to fetch''))) \<and>
   fst (searchRelatedTopics (rejects (ErrorObj None (Some (js ''Failed to fetch''))))
          (js ''enzymes'') []) =
     Inr \<lparr>result_text = js ''Search currently unavailable.'', sources = []\<rparr>"
  using search_degrades_on_failure
    [of "rejects (ErrorObj None (Some (js ''Failed to fetch'')))" "js ''enzymes''" "[]"
        "ErrorObj None (Some (js ''Failed to fetch''))"]
  by (simp add: rejects_def)

section \<open>The turns handed to the chat session\<close>

lemma handed_chat_request:
  "handed_turns (chat_request history newMessage context) =
     [contextMessage context, acknowledgment] @ history @
     [\<lparr>role = User, parts = [TextPart newMessage]\<rparr>]"
  by (simp add: chat_request_def fullHistory_def)

text \<open>
  C4 (as amended).  For every history, message and context, \<open>sendChatMessage\<close> makes
  one chat call.  The history it gives to \<open>ai.chats.create\<close> is: a user turn that refers
  to the document in the chat's own framing (a fixed introduction, then the inline PDF,
  the URL, or the first 30000 code units of the text), the model turn
  \<open>I have read the paper. How can I help you?\<close>, and then the whole caller history; the
  message it gives to \<open>chat.sendMessage\<close> is the new message.  That is
  \<open>length history + 3\<close> turns handed over, three for an empty history.
\<close>

theorem chat_transmits_seeds_history_message:
  "snd (sendChatMessage R history newMessage context sent) =
     sent @ [chat_request history newMessage context] \<and>
   chat_history (chat_request history newMessage context) =
     [contextMessage context,
      \<lparr>role = Model, parts = [TextPart (js ''I have read the paper. How can I help you?'')]\<rparr>]
     @ history \<and>
   chat_message (chat_request history newMessage context) = newMessage \<and>
   handed_turns (chat_request history newMessage context) =
     [contextMessage context,
      \<lparr>role = Model, parts = [TextPart (js ''I have read the paper. How can I help you?'')]\<rparr>]
     @ history @ [\<lparr>role = User, parts = [TextPart newMessage]\<rparr>] \<and>
   length (handed_turns (chat_request history newMessage context)) = length history + 3 \<and>
   role (contextMessage context) = User \<and>
   parts (contextMessage context) =
     (case context of
        PdfDoc content \<Rightarrow>
          [TextPart (js ''Here is the research paper to reference:''),
           InlineData (js ''application/pdf'') content]
      | UrlDoc content \<Rightarrow>
          [TextPart (js ''Here is the URL of the research paper to reference: '' @ content)]
      | TextDoc content \<Rightarrow>
          [TextPart (js ''Here is the text of the research paper to reference:\<newline>\<newline>''
                     @ take 30000 content)])"
  by (cases "context")
     (simp_all add: sendChatMessage_sent handed_chat_request acknowledgment_def
        contextMessage_def substring_from_zero chat_request_def fullHistory_def)

text \<open>
  C4 as stated fails: an empty history yields three turns, not four, and
  the seed turn of a text document is not the part the analysis request carries.
\<close>

theorem chat_empty_history_transmits_three:
  "length (handed_turns
       (chat_request [] (js ''What is the main finding?'') photosynthesis)) = 3 \<and>
   parts (hd (handed_turns
       (chat_request [] (js ''What is the main finding?'') photosynthesis))) \<noteq>
     [hd (analysis_parts photosynthesis Undergraduate)]"
  by (simp add: handed_chat_request contextMessage_def analysis_parts_def
      photosynthesis_def substring_from_zero js_def)


section \<open>Which remote calls are retried\<close>

lemma generateOp_sent: "snd (generateOp R parse ps sent) = sent @ [analysis_request ps]"
  by (simp add: generateOp_def transmit_def split: sum.splits option.splits)



lemma retry_repeats_request:
  "\<forall>s. snd (op s) = s @ [q] \<Longrightarrow>
   retryOperation op retries delay w = (res, w') \<Longrightarrow>
     \<exists>n. 1 \<le> n \<and> int n \<le> 1 + max 0 retries \<and>
         ext w' = ext w @ replicate n q \<and>
         slept w' = slept w @ backoff delay (n - 1)"
proof (induction op retries delay w arbitrary: res w' rule: retryOperation.induct)
  case (1 operation retries delay w)
  obtain r s' where o: "operation (ext w) = (r, s')" by (cases "operation (ext w)")
  have s': "s' = ext w @ [q]" using "1.prems"(1) o by (metis snd_conv)
  have base: "w' = w\<lparr>ext := s'\<rparr> \<Longrightarrow> ?case"
    by (rule exI[of _ 1]) (simp add: s' backoff_def)
  show ?case
  proof (cases r)
    case (Inr v)
    with "1.prems"(2) o have "w' = w\<lparr>ext := s'\<rparr>"
      by (subst (asm) retryOperation.simps) auto
    then show ?thesis by (rule base)
  next
    case (Inl err)
    show ?thesis
    proof (cases "\<not> retries \<le> 0 \<and> isRetryable err = Inr True")
      case False
      with "1.prems"(2) o Inl have "w' = w\<lparr>ext := s'\<rparr>"
        by (subst (asm) retryOperation.simps) (auto split: sum.splits bool.splits if_splits)
      then show ?thesis by (rule base)
    next
      case True
      let ?w1 = "w\<lparr>ext := s', slept := slept w @ [delay]\<rparr>"
      have rec: "retryOperation operation (retries - 1) (delay * 2) ?w1 = (res, w')"
        using "1.prems"(2) o Inl True by (subst (asm) retryOperation.simps) auto
      from True have c: "\<not> retries \<le> 0" "isRetryable err = Inr True" "True = True" by simp_all
      from "1.IH"[OF o[symmetric] Inl c "1.prems"(1) rec]
      obtain n where n: "1 \<le> n" "int n \<le> 1 + max 0 (retries - 1)"
        "ext w' = ext ?w1 @ replicate n q"
        "slept w' = slept ?w1 @ backoff (delay * 2) (n - 1)"
        by blast
      have bk: "delay # backoff (delay * 2) (n - Suc 0) = backoff delay n"
        using n(1) backoff_Suc[of delay "n - 1"] by simp
      show ?thesis
        apply (rule exI[of _ "Suc n"])
        using n c(1) by (simp add: s' bk replicate_append_same)
    qed
  qed
qed








section \<open>Building a PDF context\<close>

lemma js_split_no_sep: "sep \<notin> set xs \<Longrightarrow> js_split sep xs = [xs]"
  by (induction xs) auto

lemma js_split_first_sep:
  "sep \<notin> set xs \<Longrightarrow> js_split sep (xs @ sep # ys) = xs # js_split sep ys"
  by (induction xs) auto

lemma split_data_url:
  assumes "comma \<notin> set mime" and "comma \<notin> set b64"
  shows "at_index (js_split comma (js ''data:'' @ mime @ js '';base64,'' @ b64)) 1 = Some b64"
proof -
  have lit: "js '';base64,'' = js '';base64'' @ [comma]"
    by (simp add: js_def comma_def)
  have head: "comma \<notin> set (js ''data:'' @ mime @ js '';base64'')"
    using assms(1) by (auto simp: js_def comma_def)
  have "js_split comma ((js ''data:'' @ mime @ js '';base64'') @ comma # b64) =
          (js ''data:'' @ mime @ js '';base64'') # [b64]"
    using js_split_first_sep[OF head] js_split_no_sep[OF assms(2)] by simp
  then show ?thesis
    by (simp add: lit at_index_def)
qed

lemma base64_no_colon:
  assumes "list_all base64_unit b64"
  shows "comma \<notin> set b64 \<and> \<not> prefix (js ''data:'') b64"
proof -
  have c: "\<not> base64_unit comma"
    by (simp add: base64_unit_def js_def comma_def)
  have d: "\<not> base64_unit (of_char CHR '':'')"
    by (simp add: base64_unit_def js_def)
  have "comma \<notin> set b64" using assms c by (auto simp: list_all_iff)
  moreover have "\<not> prefix (js ''data:'') b64"
  proof
    assume "prefix (js ''data:'') b64"
    then have "set (js ''data:'') \<subseteq> set b64" by (rule set_mono_prefix)
    then have "of_char CHR '':'' \<in> set b64" by (auto simp: js_def)
    with assms d show False by (auto simp: list_all_iff)
  qed
  ultimately show ?thesis by simp
qed

text \<open>
  C7.  With the discriminator \<open>pdf\<close> and a string payload, building the context fails
  with the error \<open>Invalid input\<close>, and \<open>handleAnalyze\<close> raises its alert and leaves the
  network untouched: no request is transmitted.  With a file whose reader delivers a
  base64 data URL (a MIME type without comma, then \<open>;base64,\<close>, then the payload), the
  context is built and its content is the payload alone, which does not start with
  \<open>data:\<close>; \<open>handleAnalyze\<close> stores that context and passes it to \<open>analyzeDocument\<close>,
  whose requests carry the payload inline.
\<close>

theorem pdf_context_construction:
  "build_context Pdf (StringContent s) = Inl (ErrorObj None (Some (js ''Invalid input''))) \<and>
   handleAnalyze R parse Pdf (StringContent s) level (a, w) =
     (a\<lparr>alerts := alerts a @ [js ''Analysis failed. Please try again.''],
        isProcessing := False\<rparr>, w) \<and>
   (readAsDataURL file = Inr (js ''data:'' @ mime @ js '';base64,'' @ b64) \<and>
    comma \<notin> set mime \<and> list_all base64_unit b64 \<longrightarrow>
      build_context Pdf (FileContent file) = Inr (PdfDoc (Some b64)) \<and>
      \<not> prefix (js ''data:'') b64 \<and>
      handleAnalyze R parse Pdf (FileContent file) level (a, w) =
        (case analyzeDocument R parse (PdfDoc (Some b64)) level w of
           (Inl error, w') \<Rightarrow>
             (a\<lparr>documentContext := Some (PdfDoc (Some b64)),
                alerts := alerts a @ [js ''Analysis failed. Please try again.''],
                isProcessing := False\<rparr>, w')
         | (Inr result, w') \<Rightarrow>
             (a\<lparr>documentContext := Some (PdfDoc (Some b64)),
                analysisResult := Some result, isProcessing := False\<rparr>, w')) \<and>
      documentContext (fst (handleAnalyze R parse Pdf (FileContent file) level (a, w))) =
        Some (PdfDoc (Some b64)) \<and>
      (\<exists>n. 1 \<le> n \<and> n \<le> 4 \<and>
           ext (snd (handleAnalyze R parse Pdf (FileContent file) level (a, w))) =
             ext w @ replicate n
               (analysis_request
                  [InlineData (js ''application/pdf'') (Some b64), TextPart (prompt level)])))"
proof -
  have inv: "build_context Pdf (StringContent s) = Inl (ErrorObj None (Some (js ''Invalid input'')))"
    by (simp add: build_context_def)
  have rejected: "handleAnalyze R parse Pdf (StringContent s) level (a, w) =
     (a\<lparr>alerts := alerts a @ [js ''Analysis failed. Please try again.''],
        isProcessing := False\<rparr>, w)"
    by (simp add: handleAnalyze_def inv)
  have accepted: "build_context Pdf (FileContent file) = Inr (PdfDoc (Some b64)) \<and>
      \<not> prefix (js ''data:'') b64 \<and>
      handleAnalyze R parse Pdf (FileContent file) level (a, w) =
        (case analyzeDocument R parse (PdfDoc (Some b64)) level w of
           (Inl error, w') \<Rightarrow>
             (a\<lparr>documentContext := Some (PdfDoc (Some b64)),
                alerts := alerts a @ [js ''Analysis failed. Please try again.''],
                isProcessing := False\<rparr>, w')
         | (Inr result, w') \<Rightarrow>
             (a\<lparr>documentContext := Some (PdfDoc (Some b64)),
                analysisResult := Some result, isProcessing := False\<rparr>, w')) \<and>
      documentContext (fst (handleAnalyze R parse Pdf (FileContent file) level (a, w))) =
        Some (PdfDoc (Some b64)) \<and>
      (\<exists>n. 1 \<le> n \<and> n \<le> 4 \<and>
           ext (snd (handleAnalyze R parse Pdf (FileContent file) level (a, w))) =
             ext w @ replicate n
               (analysis_request
                  [InlineData (js ''application/pdf'') (Some b64), TextPart (prompt level)]))"
    if "readAsDataURL file = Inr (js ''data:'' @ mime @ js '';base64,'' @ b64)"
      and "comma \<notin> set mime" and "list_all base64_unit b64"
  proof -
    have built: "build_context Pdf (FileContent file) = Inr (PdfDoc (Some b64))"
      and clean: "\<not> prefix (js ''data:'') b64"
      using that base64_no_colon[OF that(3)] split_data_url[of mime b64]
      by (simp_all add: build_context_def fileToGenerativePart_def)
    obtain res w' where run: "analyzeDocument R parse (PdfDoc (Some b64)) level w = (res, w')"
      by (cases "analyzeDocument R parse (PdfDoc (Some b64)) level w")
    have handled: "handleAnalyze R parse Pdf (FileContent file) level (a, w) =
        (case analyzeDocument R parse (PdfDoc (Some b64)) level w of
           (Inl error, w') \<Rightarrow>
             (a\<lparr>documentContext := Some (PdfDoc (Some b64)),
                alerts := alerts a @ [js ''Analysis failed. Please try again.''],
                isProcessing := False\<rparr>, w')
         | (Inr result, w') \<Rightarrow>
             (a\<lparr>documentContext := Some (PdfDoc (Some b64)),
                analysisResult := Some result, isProcessing := False\<rparr>, w'))"
      by (simp add: handleAnalyze_def built)
    have parts: "analysis_parts (PdfDoc (Some b64)) level =
        [InlineData (js ''application/pdf'') (Some b64), TextPart (prompt level)]"
      by (simp add: analysis_parts_def)
    have one: "\<forall>s. snd (generateOp R parse (analysis_parts (PdfDoc (Some b64)) level) s) =
                 s @ [analysis_request (analysis_parts (PdfDoc (Some b64)) level)]"
      by (simp add: generateOp_sent)
    from retry_repeats_request[OF one run[unfolded analyzeDocument_def]]
    obtain n where n: "1 \<le> n" "n \<le> 4"
      "ext w' = ext w @ replicate n (analysis_request (analysis_parts (PdfDoc (Some b64)) level))"
      by auto
    have "documentContext (fst (handleAnalyze R parse Pdf (FileContent file) level (a, w))) =
        Some (PdfDoc (Some b64))"
      and "snd (handleAnalyze R parse Pdf (FileContent file) level (a, w)) = w'"
      unfolding handled run by (cases res; simp)+
    with n parts built clean handled show ?thesis by auto
  qed
  from inv rejected accepted show ?thesis by blast
qed

lemma handleAnalyze_pdf_file:
  "handleAnalyze (answers spoken_response) parse_any Pdf (FileContent pdf_file) Undergraduate
     (idle_app, \<lparr>ext = [], slept = []\<rparr>) =
   (\<lparr>isProcessing = False, analysisResult = Some (js ''{}''),
     documentContext = Some (PdfDoc (Some (js ''JVBERi0=''))), alerts = []\<rparr>,
    \<lparr>ext = [analysis_request
              [InlineData (js ''application/pdf'') (Some (js ''JVBERi0='')),
               TextPart (prompt Undergraduate)]],
     slept = []\<rparr>)"
  by (simp add: handleAnalyze_def build_context_def fileToGenerativePart_def pdf_file_def
      at_index_def comma_def analyzeDocument_def retryOperation.simps generateOp_def
      transmit_def answers_def spoken_response_def parse_any_def idle_app_def
      analysis_parts_def js_def)

theorem pdf_context_construction_witness:
  "readAsDataURL pdf_file =
     Inr (js ''data:'' @ js ''application/pdf'' @ js '';base64,'' @ js ''JVBERi0='') \<and>
   comma \<notin> set (js ''application/pdf'') \<and> list_all base64_unit (js ''JVBERi0='') \<and>
   build_context Pdf (FileContent pdf_file) = Inr (PdfDoc (Some (js ''JVBERi0=''))) \<and>
   documentContext (fst (handleAnalyze (answers spoken_response) parse_any Pdf
          (FileContent pdf_file) Undergraduate (idle_app, \<lparr>ext = [], slept = []\<rparr>))) =
     Some (PdfDoc (Some (js ''JVBERi0=''))) \<and>
   ext (snd (handleAnalyze (answers spoken_response) parse_any Pdf
          (FileContent pdf_file) Undergraduate (idle_app, \<lparr>ext = [], slept = []\<rparr>))) =
     [analysis_request
        [InlineData (js ''application/pdf'') (Some (js ''JVBERi0='')),
         TextPart (prompt Undergraduate)]] \<and>
   snd (handleAnalyze (answers spoken_response) parse_any Pdf (StringContent (js ''not a file''))
          Undergraduate (idle_app, \<lparr>ext = [], slept = []\<rparr>)) = \<lparr>ext = [], slept = []\<rparr>"
proof -
  have h: "readAsDataURL pdf_file =
     Inr (js ''data:'' @ js ''application/pdf'' @ js '';base64,'' @ js ''JVBERi0='') \<and>
   comma \<notin> set (js ''application/pdf'') \<and> list_all base64_unit (js ''JVBERi0='')"
    by (simp add: pdf_file_def js_def comma_def base64_unit_def)
  have sent: "ext (snd (handleAnalyze (answers spoken_response) parse_any Pdf
          (FileContent pdf_file) Undergraduate (idle_app, \<lparr>ext = [], slept = []\<rparr>))) =
     [analysis_request
        [InlineData (js ''application/pdf'') (Some (js ''JVBERi0='')),
         TextPart (prompt Undergraduate)]]"
    by (simp add: handleAnalyze_pdf_file)
  note inst = pdf_context_construction
    [where s = "js ''not a file''" and R = "answers spoken_response" and parse = parse_any
       and level = Undergraduate and a = idle_app and w = "\<lparr>ext = [], slept = []\<rparr>"
       and ?file = pdf_file and mime = "js ''application/pdf''" and ?b64.0 = "js ''JVBERi0=''"]
  have rejected: "snd (handleAnalyze (answers spoken_response) parse_any Pdf
      (StringContent (js ''not a file'')) Undergraduate (idle_app, \<lparr>ext = [], slept = []\<rparr>)) =
      \<lparr>ext = [], slept = []\<rparr>"
    by (simp only: inst[THEN conjunct2, THEN conjunct1] snd_conv)
  note accepted = inst[THEN conjunct2, THEN conjunct2, THEN mp, OF h]
  note built = accepted[THEN conjunct1]
  note stored = accepted[THEN conjunct2, THEN conjunct2, THEN conjunct2, THEN conjunct1]
  from h built stored sent rejected show ?thesis by blast
qed

section \<open>Decoding PCM samples\<close>

lemma Int16Array_samples:
  "Int16Array raw = Inr data \<Longrightarrow>
   length raw = 2 * length data \<and>
   (\<forall>i<length data. data ! i = int16_le (raw ! (2 * i)) (raw ! (2 * i + 1)))"
proof (induction raw arbitrary: data rule: Int16Array.induct)
  case 1
  then show ?case by simp
next
  case (2 b)
  then show ?case by simp
next
  case (3 lo hi bs)
  from "3.prems" obtain xs where xs: "Int16Array bs = Inr xs" "data = int16_le lo hi # xs"
    by (auto split: sum.splits)
  from "3.IH"[OF xs(1)] have ih: "length bs = 2 * length xs"
    "\<forall>i<length xs. xs ! i = int16_le (bs ! (2 * i)) (bs ! (2 * i + 1))" by simp_all
  show ?case
  proof (intro conjI allI impI)
    show "length (lo # hi # bs) = 2 * length data" using ih(1) xs(2) by simp
  next
    fix i assume "i < length data"
    then show "data ! i = int16_le ((lo # hi # bs) ! (2 * i)) ((lo # hi # bs) ! (2 * i + 1))"
      using ih(2) xs(2) by (cases i) auto
  qed
qed

lemma pcm_loop_result:
  "length channel = frameCount \<Longrightarrow>
   length (pcm_loop data frameCount i channel) = frameCount \<and>
   (\<forall>j<frameCount. pcm_loop data frameCount i channel ! j =
      (if i \<le> j then real_of_int (sint (data ! j)) / 32768 else channel ! j))"
proof (induction data frameCount i channel rule: pcm_loop.induct)
  case (1 data frameCount i channel)
  show ?case
  proof (cases "i < frameCount")
    case False
    then have "pcm_loop data frameCount i channel = channel"
      by (subst pcm_loop.simps) simp
    then show ?thesis using "1.prems" False by simp
  next
    case True
    let ?c = "channel[i := real_of_int (sint (data ! i)) / 32768]"
    have step: "pcm_loop data frameCount i channel = pcm_loop data frameCount (Suc i) ?c"
      using True by (subst pcm_loop.simps) simp
    have len: "length ?c = frameCount" using "1.prems" by simp
    from "1.IH"[OF True len] have ih: "length (pcm_loop data frameCount (Suc i) ?c) = frameCount"
      "\<forall>j<frameCount. pcm_loop data frameCount (Suc i) ?c ! j =
         (if Suc i \<le> j then real_of_int (sint (data ! j)) / 32768 else ?c ! j)" by simp_all
    show ?thesis
    proof (intro conjI allI impI)
      show "length (pcm_loop data frameCount i channel) = frameCount" using ih(1) step by simp
    next
      fix j assume j: "j < frameCount"
      show "pcm_loop data frameCount i channel ! j =
         (if i \<le> j then real_of_int (sint (data ! j)) / 32768 else channel ! j)"
        using ih(2) j step "1.prems" True
        by (cases "j = i") (auto simp: nth_list_update)
    qed
  qed
qed

lemma sample_range: "- 32768 \<le> sint (s :: 16 word) \<and> sint s \<le> 32767"
  using sint_ge[of s] sint_lt[of s] by simp


lemma createAudioBufferFromPCM_Inr:
  assumes "createAudioBufferFromPCM rawBuffer context sampleRate = Inr audioBuffer"
  shows "\<exists>data. Int16Array rawBuffer = Inr data \<and> data \<noteq> [] \<and>
           buffer_sampleRate audioBuffer = sampleRate \<and>
           channelData audioBuffer = pcm_loop data (length data) 0 (replicate (length data) 0)"
  using assms
  by (auto simp: createAudioBufferFromPCM_def createBuffer_def Let_def
      split: sum.splits if_splits)

lemma three_samples:
  "createAudioBufferFromPCM [0x00, 0x00, 0x00, 0x80, 0xFF, 0x7F] browser_context 24000 =
     Inr \<lparr>buffer_sampleRate = 24000, channelData = [0, - 1, 32767 / 32768]\<rparr>"
  by (simp add: createAudioBufferFromPCM_def createBuffer_def browser_context_def int16_le_def
      pcm_loop.simps numeral_3_eq_3)

text \<open>
  C9.  When \<open>createAudioBufferFromPCM\<close> returns a buffer, it holds one float for every
  two input bytes, and float \<open>i\<close> is the signed little-endian 16-bit sample \<open>i\<close> divided by
  32768: the sample 0 gives 0, the sample -32768 gives -1, the sample 32767 gives
  32767/32768, and every float lies between -1 and 1.
\<close>

theorem pcm_samples_are_scaled:
  assumes "createAudioBufferFromPCM rawBuffer context sampleRate = Inr audioBuffer"
  shows "length rawBuffer = 2 * length (channelData audioBuffer) \<and>
         (\<forall>i<length (channelData audioBuffer).
            channelData audioBuffer ! i =
              real_of_int (sint (int16_le (rawBuffer ! (2 * i)) (rawBuffer ! (2 * i + 1)))) / 32768 \<and>
            (sint (int16_le (rawBuffer ! (2 * i)) (rawBuffer ! (2 * i + 1))) = 0 \<longrightarrow>
               channelData audioBuffer ! i = 0) \<and>
            (sint (int16_le (rawBuffer ! (2 * i)) (rawBuffer ! (2 * i + 1))) = - 32768 \<longrightarrow>
               channelData audioBuffer ! i = - 1) \<and>
            (sint (int16_le (rawBuffer ! (2 * i)) (rawBuffer ! (2 * i + 1))) = 32767 \<longrightarrow>
               channelData audioBuffer ! i = 32767 / 32768) \<and>
            - 1 \<le> channelData audioBuffer ! i \<and> channelData audioBuffer ! i \<le> 1)"
proof -
  from createAudioBufferFromPCM_Inr[OF assms] obtain data where d:
    "Int16Array rawBuffer = Inr data"
    "channelData audioBuffer = pcm_loop data (length data) 0 (replicate (length data) 0)"
    by blast
  from Int16Array_samples[OF d(1)] have raw: "length rawBuffer = 2 * length data"
    "\<forall>i<length data. data ! i = int16_le (rawBuffer ! (2 * i)) (rawBuffer ! (2 * i + 1))"
    by simp_all
  from pcm_loop_result[of "replicate (length data) 0" "length data" data 0]
  have out: "length (channelData audioBuffer) = length data"
    "\<forall>j<length data. channelData audioBuffer ! j = real_of_int (sint (data ! j)) / 32768"
    by (simp_all add: d(2))
  have per: "channelData audioBuffer ! i =
          real_of_int (sint (int16_le (rawBuffer ! (2 * i)) (rawBuffer ! (2 * i + 1)))) / 32768 \<and>
        (sint (int16_le (rawBuffer ! (2 * i)) (rawBuffer ! (2 * i + 1))) = 0 \<longrightarrow>
           channelData audioBuffer ! i = 0) \<and>
        (sint (int16_le (rawBuffer ! (2 * i)) (rawBuffer ! (2 * i + 1))) = - 32768 \<longrightarrow>
           channelData audioBuffer ! i = - 1) \<and>
        (sint (int16_le (rawBuffer ! (2 * i)) (rawBuffer ! (2 * i + 1))) = 32767 \<longrightarrow>
           channelData audioBuffer ! i = 32767 / 32768) \<and>
        - 1 \<le> channelData audioBuffer ! i \<and> channelData audioBuffer ! i \<le> 1"
    if "i < length (channelData audioBuffer)" for i
  proof -
    define x where "x = sint (int16_le (rawBuffer ! (2 * i)) (rawBuffer ! (2 * i + 1)))"
    have "channelData audioBuffer ! i =
            real_of_int (sint (int16_le (rawBuffer ! (2 * i)) (rawBuffer ! (2 * i + 1)))) / 32768"
      using that out raw(2) by simp
    then have v: "channelData audioBuffer ! i = real_of_int x / 32768"
      by (simp only: x_def)
    have "- 32768 \<le> x" "x \<le> 32767"
      unfolding x_def by (simp_all only: sample_range)
    then have "- 32768 \<le> real_of_int x" "real_of_int x \<le> 32767"
      by linarith+
    then have "(x = 0 \<longrightarrow> real_of_int x / 32768 = 0) \<and>
        (x = - 32768 \<longrightarrow> real_of_int x / 32768 = - 1) \<and>
        (x = 32767 \<longrightarrow> real_of_int x / 32768 = 32767 / 32768) \<and>
        - 1 \<le> real_of_int x / 32768 \<and> real_of_int x / 32768 \<le> 1"
      by auto
    then show ?thesis
      unfolding v x_def[symmetric] by simp
  qed
  have "length rawBuffer = 2 * length (channelData audioBuffer)"
    using raw(1) out(1) by simp
  with per show ?thesis by blast
qed

theorem pcm_samples_are_scaled_witness:
  "createAudioBufferFromPCM [0x00, 0x00, 0x00, 0x80, 0xFF, 0x7F] browser_context 24000 =
     Inr \<lparr>buffer_sampleRate = 24000, channelData = [0, - 1, 32767 / 32768]\<rparr> \<and>
   sint (int16_le 0x00 0x00) = 0 \<and> sint (int16_le 0x00 0x80) = - 32768 \<and>
   sint (int16_le 0xFF 0x7F) = 32767 \<and>
   length [0x00, 0x00, 0x00, 0x80, 0xFF, 0x7F :: 8 word] = 2 * length [0, - 1, 32767 / 32768 :: real]"
proof -
  have s: "sint (int16_le 0x00 0x00) = 0 \<and> sint (int16_le 0x00 0x80) = - 32768 \<and>
           sint (int16_le 0xFF 0x7F) = 32767"
    by (simp add: int16_le_def)
  from pcm_samples_are_scaled[OF three_samples] s three_samples
  show ?thesis by simp
qed

end
